theory Spec2Isabelle
  imports Complex_Main "HOL-Library.AList"
begin

section \<open>Python values, exceptions and the message types\<close>

text \<open>
  Exceptions are values. Every exception below is an instance of Python's
  \<^verbatim>\<open>Exception\<close> class (what an \<^verbatim>\<open>except Exception\<close> clause catches); the
  constructor is the exception's class, the string its message.
\<close>

datatype exn =
    ToolError string
  | ValueError string
  | ValidationError string
  | MissingAPIKeyError string string
  | MissingPromptFileError string
  | RuntimeError string
  | AttributeError string
  | TypeError string
  | KeyError string
  | IndexError string
  | OSError string
  | ImportError string


text \<open>
  A dynamically typed Python value, as far as the backend adapter inspects one:
  \<^verbatim>\<open>None\<close>, booleans, integers, strings, lists, and objects given by their
  attributes.
\<close>

datatype pyval =
    PNone
  | PBool bool
  | PInt int
  | PStr string
  | PList "pyval list"
  | PObj "(string \<times> pyval) list"

text \<open>Python truthiness (\<^verbatim>\<open>if x:\<close>, \<^verbatim>\<open>x or y\<close>).\<close>

fun truthy :: "pyval \<Rightarrow> bool" where
  "truthy PNone = False"
| "truthy (PBool b) = b"
| "truthy (PInt n) = (n \<noteq> 0)"
| "truthy (PStr s) = (s \<noteq> [])"
| "truthy (PList xs) = (xs \<noteq> [])"
| "truthy (PObj _) = True"

definition py_or :: "pyval \<Rightarrow> pyval \<Rightarrow> pyval" where
  "py_or a b = (if truthy a then a else b)"




text \<open>
  Modelled from the spec: the module \<^verbatim>\<open>hacxgent.core.types\<close> is not part of the
  sources at hand. The spec's data model gives a message a role among system, user,
  assistant and tool, optional text content, optional reasoning text, an optional list
  of tool calls, and a tool call id and tool name; a tool call an id, a position index,
  a function name and argument text; a usage record the prompt and completion token
  counts. Field values are kept as the adapter supplies them.
\<close>

datatype Role = system | user | assistant | tool

definition Role_value :: "Role \<Rightarrow> string" where
  "Role_value r = (case r of system \<Rightarrow> ''system'' | user \<Rightarrow> ''user''
     | assistant \<Rightarrow> ''assistant'' | tool \<Rightarrow> ''tool'')"


record FunctionCall =
  fc_name :: pyval
  fc_arguments :: pyval

record ToolCall =
  tc_id :: pyval
  tc_index :: pyval
  tc_function :: FunctionCall

record LLMMessage =
  msg_role :: Role
  msg_content :: pyval
  msg_reasoning_content :: pyval
  msg_tool_calls :: "ToolCall list option"
  msg_tool_call_id :: pyval
  msg_name :: pyval



text \<open>
  \<^verbatim>\<open>LLMMessage(role=r, content=c, reasoning_content=x, tool_calls=t)\<close>: the fields
  not given keep their default \<^verbatim>\<open>None\<close>.
\<close>

definition mk_message :: "Role \<Rightarrow> pyval \<Rightarrow> pyval \<Rightarrow> ToolCall list option \<Rightarrow> LLMMessage" where
  "mk_message r c x t =
     \<lparr>msg_role = r, msg_content = c, msg_reasoning_content = x, msg_tool_calls = t,
      msg_tool_call_id = PNone, msg_name = PNone\<rparr>"


section \<open>Configuration (\<^verbatim>\<open>core/config.py\<close>)\<close>

type_synonym environ = "string \<rightharpoonup> string"

record ProviderConfig =
  pc_name :: string
  pc_api_base :: string
  pc_api_key_env_var :: string

record ModelConfig =
  mc_name :: string
  mc_provider :: string
  mc_alias :: string
  mc_temperature :: real
  mc_input_price :: real
  mc_output_price :: real
  rate_limit_rpm :: int
  max_context_tokens :: int

text \<open>
  The dictionary a model is declared by, before validation: a key that is absent or
  \<^verbatim>\<open>None\<close> is \<open>None\<close>.
\<close>

record raw_model =
  raw_name :: "string option"
  raw_provider :: "string option"
  raw_alias :: "string option"
  raw_temperature :: "real option"
  raw_input_price :: "real option"
  raw_output_price :: "real option"
  raw_rate_limit_rpm :: "int option"
  raw_max_context_tokens :: "int option"

text \<open>\<^verbatim>\<open>ModelConfig._default_alias_to_name\<close>, the validator that runs before the fields are read.\<close>

definition default_alias_to_name :: "raw_model \<Rightarrow> raw_model" where
  "default_alias_to_name data =
     (if raw_alias data = None then data\<lparr>raw_alias := raw_name data\<rparr> else data)"

text \<open>
  Building a \<^verbatim>\<open>ModelConfig\<close>: the before-validator, then the fields; \<^verbatim>\<open>name\<close>,
  \<^verbatim>\<open>provider\<close> and \<^verbatim>\<open>alias\<close> are required, the others have defaults.
\<close>

definition or_default :: "'a option \<Rightarrow> 'a \<Rightarrow> 'a" where
  "or_default v d = (case v of Some x \<Rightarrow> x | None \<Rightarrow> d)"

definition ModelConfig_validate :: "raw_model \<Rightarrow> exn + ModelConfig" where
  "ModelConfig_validate data0 =
     (let data = default_alias_to_name data0 in
      case (raw_name data, raw_provider data, raw_alias data) of
        (Some n, Some p, Some a) \<Rightarrow>
          Inr \<lparr>mc_name = n, mc_provider = p, mc_alias = a,
               mc_temperature = or_default (raw_temperature data) (2 / 10),
               mc_input_price = or_default (raw_input_price data) 0,
               mc_output_price = or_default (raw_output_price data) 0,
               rate_limit_rpm = or_default (raw_rate_limit_rpm data) 0,
               max_context_tokens = or_default (raw_max_context_tokens data) 0\<rparr>
      | _ \<Rightarrow> Inl (ValidationError ''Field required''))"

fun validate_models :: "raw_model list \<Rightarrow> exn + ModelConfig list" where
  "validate_models [] = Inr []"
| "validate_models (d # ds) =
     (case ModelConfig_validate d of
        Inl e \<Rightarrow> Inl e
      | Inr m \<Rightarrow> (case validate_models ds of Inl e \<Rightarrow> Inl e | Inr ms \<Rightarrow> Inr (m # ms)))"

record HacxgentConfig =
  active_model :: string
  system_prompt_id :: string
  providers :: "ProviderConfig list"
  models :: "ModelConfig list"

text \<open>\<^verbatim>\<open>HacxgentConfig.get_active_model\<close>.\<close>

definition get_active_model :: "HacxgentConfig \<Rightarrow> exn + ModelConfig" where
  "get_active_model c =
     (if active_model c = [] \<and> models c \<noteq> [] then Inr (hd (models c))
      else case find (\<lambda>m. mc_alias m = active_model c) (models c) of
        Some m \<Rightarrow> Inr m
      | None \<Rightarrow>
          if models c = [] then Inl (ValueError ''No models configured.'')
          else Inl (ValueError (''Active model '' @ [CHR 0x27] @ active_model c @ [CHR 0x27]
                                 @ '' not found in configuration.'')))"

text \<open>\<^verbatim>\<open>HacxgentConfig.get_provider_for_model\<close>.\<close>

definition get_provider_for_model :: "HacxgentConfig \<Rightarrow> ModelConfig \<Rightarrow> exn + ProviderConfig" where
  "get_provider_for_model c m =
     (case find (\<lambda>p. pc_name p = mc_provider m) (providers c) of
        Some p \<Rightarrow> Inr p
      | None \<Rightarrow> Inl (ValueError (''Provider '' @ [CHR 0x27] @ mc_provider m @ [CHR 0x27]
                 @ '' for model '' @ [CHR 0x27] @ mc_name m @ [CHR 0x27]
                 @ '' not found in configuration.'')))"

text \<open>\<^verbatim>\<open>os.getenv(k)\<close> used as a condition: set and not empty.\<close>

definition getenv_truthy :: "environ \<Rightarrow> string \<Rightarrow> bool" where
  "getenv_truthy env k = (case env k of Some v \<Rightarrow> v \<noteq> [] | None \<Rightarrow> False)"

text \<open>The validators that run after the fields are set, in the order the class declares them.\<close>

definition check_api_key :: "environ \<Rightarrow> HacxgentConfig \<Rightarrow> exn + HacxgentConfig" where
  "check_api_key env c =
     (case get_active_model c of
        Inl e \<Rightarrow> Inl e
      | Inr m \<Rightarrow>
         (case get_provider_for_model c m of
            Inl e \<Rightarrow> Inl e
          | Inr p \<Rightarrow>
              if pc_api_key_env_var p \<noteq> [] \<and> \<not> getenv_truthy env (pc_api_key_env_var p)
              then Inl (MissingAPIKeyError (pc_api_key_env_var p) (pc_name p))
              else Inr c))"

definition duplicate_alias_error :: "string \<Rightarrow> exn" where
  "duplicate_alias_error a =
     ValueError (''Duplicate model alias found: '' @ [CHR 0x27] @ a @ [CHR 0x27]
                 @ ''. Aliases must be unique.'')"

text \<open>The loop of \<^verbatim>\<open>_validate_model_uniqueness\<close> over the models, with its set of aliases seen.\<close>

fun uniqueness_loop :: "string set \<Rightarrow> ModelConfig list \<Rightarrow> exn option" where
  "uniqueness_loop seen_aliases [] = None"
| "uniqueness_loop seen_aliases (m # ms) =
     (if mc_alias m \<in> seen_aliases then Some (duplicate_alias_error (mc_alias m))
      else uniqueness_loop (insert (mc_alias m) seen_aliases) ms)"

definition validate_model_uniqueness :: "HacxgentConfig \<Rightarrow> exn + HacxgentConfig" where
  "validate_model_uniqueness c =
     (case uniqueness_loop {} (models c) of Some e \<Rightarrow> Inl e | None \<Rightarrow> Inr c)"

text \<open>
  \<^verbatim>\<open>_check_system_prompt\<close> reads the \<^verbatim>\<open>system_prompt\<close> property, which looks the
  identifier up among the built-in prompts and the prompt directories; which identifiers
  resolve is given by \<open>has_prompt\<close>.
\<close>

definition check_system_prompt :: "(string \<Rightarrow> bool) \<Rightarrow> HacxgentConfig \<Rightarrow> exn + HacxgentConfig" where
  "check_system_prompt has_prompt c =
     (if has_prompt (system_prompt_id c) then Inr c
      else Inl (MissingPromptFileError (system_prompt_id c)))"

record raw_config =
  raw_active_model :: string
  raw_system_prompt_id :: string
  raw_providers :: "ProviderConfig list"
  raw_models :: "raw_model list"

text \<open>
  Loading a configuration: the models are validated one by one, then the three
  validators run; the first error aborts the load.
\<close>

definition HacxgentConfig_load ::
  "environ \<Rightarrow> (string \<Rightarrow> bool) \<Rightarrow> raw_config \<Rightarrow> exn + HacxgentConfig" where
  "HacxgentConfig_load env has_prompt raw =
     (case validate_models (raw_models raw) of
        Inl e \<Rightarrow> Inl e
      | Inr ms \<Rightarrow>
         (case check_api_key env
                 \<lparr>active_model = raw_active_model raw,
                  system_prompt_id = raw_system_prompt_id raw,
                  providers = raw_providers raw, models = ms\<rparr> of
            Inl e \<Rightarrow> Inl e
          | Inr c1 \<Rightarrow>
             (case validate_model_uniqueness c1 of
                Inl e \<Rightarrow> Inl e
              | Inr c2 \<Rightarrow> check_system_prompt has_prompt c2)))"


section \<open>Resuming a session (\<^verbatim>\<open>cli/cli.py\<close>)\<close>

text \<open>
  The agent loop, as far as the command line touches it when it resumes a session: its
  list of messages.
\<close>

record AgentLoop =
  messages :: "LLMMessage list"

text \<open>\<^verbatim>\<open>_load_messages_from_previous_session\<close>: the list is extended in place.\<close>

definition load_messages_from_previous_session :: "AgentLoop \<Rightarrow> LLMMessage list \<Rightarrow> AgentLoop" where
  "load_messages_from_previous_session agent_loop loaded_messages =
     (let non_system_messages = filter (\<lambda>msg. msg_role msg \<noteq> system) loaded_messages
      in agent_loop\<lparr>messages := messages agent_loop @ non_system_messages\<rparr>)"


section \<open>Remote tool servers (\<^verbatim>\<open>core/config.py\<close>)\<close>

text \<open>
  \<^verbatim>\<open>_MCPBase.normalize_name\<close>, the validator of a server's name. A string is a list
  of characters; \<^verbatim>\<open>re.sub(r"[^a-zA-Z0-9_-]", "_", v)\<close> replaces each character
  outside the class, \<^verbatim>\<open>strip("_-")\<close> removes the characters of its argument from
  both ends, \<^verbatim>\<open>[:256]\<close> keeps the first 256 characters.
\<close>

definition name_chars :: string where
  "name_chars = ''abcdefghijklmnopqrstuvwxyzABCDEFGHIJKLMNOPQRSTUVWXYZ0123456789_-''"

definition re_sub_name :: "string \<Rightarrow> string" where
  "re_sub_name v = map (\<lambda>c. if c \<in> set name_chars then c else CHR ''_'') v"

definition py_strip :: "string \<Rightarrow> string \<Rightarrow> string" where
  "py_strip chars s =
     rev (dropWhile (\<lambda>c. c \<in> set chars) (rev (dropWhile (\<lambda>c. c \<in> set chars) s)))"

definition normalize_name :: "string \<Rightarrow> string" where
  "normalize_name v =
     (let normalized = re_sub_name v;
          normalized = py_strip ''_-'' normalized
      in take 256 normalized)"






text \<open>
  \<^verbatim>\<open>template.format(token=token)\<close>, read character by character as Python's
  formatter does: text is copied, \<^verbatim>\<open>{{\<close> and \<^verbatim>\<open>}}\<close> give one brace, and a
  replacement field runs from \<^verbatim>\<open>{\<close> to the next \<^verbatim>\<open>}\<close>. The field
  \<^verbatim>\<open>{token}\<close> gives the token. With \<^verbatim>\<open>token\<close> the only argument, a field
  of any other name (empty, a number, another word) raises \<^verbatim>\<open>IndexError\<close> or
  \<^verbatim>\<open>KeyError\<close>, and a brace left alone raises \<^verbatim>\<open>ValueError\<close>:
  \<open>FormatRaises\<close>. A field that names \<^verbatim>\<open>token\<close> and goes on with a conversion,
  a format specification, an attribute or an index (\<^verbatim>\<open>{token!r}\<close>,
  \<^verbatim>\<open>{token:>8}\<close>) is outside what is modelled: \<open>FormatBeyond\<close>.
\<close>

datatype fmt_mode = Lit | AfterOpen | AfterClose | Field string












section \<open>The backend adapter (\<^verbatim>\<open>core/llm/backend/universal.py\<close>)\<close>








text \<open>
  \<^verbatim>\<open>UniversalBackend._prepare_messages\<close>: one dictionary per message, a list of
  pairs in insertion order.
\<close>

definition prepare_tool_call :: "ToolCall \<Rightarrow> pyval" where
  "prepare_tool_call tc =
     PObj [(''id'', tc_id tc), (''type'', PStr ''function''),
           (''function'', PObj [(''name'', fc_name (tc_function tc)),
                                (''arguments'', fc_arguments (tc_function tc))])]"

definition prepare_message :: "LLMMessage \<Rightarrow> (string \<times> pyval) list" where
  "prepare_message msg =
     (let m = [(''role'', PStr (Role_value (msg_role msg))),
               (''content'', py_or (msg_content msg) (PStr []))]
      in if msg_role msg = assistant then
           (case msg_tool_calls msg of
              Some (tc # tcs) \<Rightarrow> m @ [(''tool_calls'', PList (map prepare_tool_call (tc # tcs)))]
            | _ \<Rightarrow> m)
         else if msg_role msg = tool then
           m @ [(''tool_call_id'', msg_tool_call_id msg), (''name'', msg_name msg)]
         else m)"

definition prepare_messages :: "LLMMessage list \<Rightarrow> (string \<times> pyval) list list" where
  "prepare_messages msgs = map prepare_message msgs"

text \<open>
  \<^verbatim>\<open>UniversalBackend.count_tokens\<close>. The approximate counter comes from a module that
  is not part of the sources at hand: \<open>counter\<close> is \<open>None\<close> when the import fails, and
  else the function, which returns a count or raises. \<open>str_of\<close> is \<^verbatim>\<open>str\<close> on the list
  of messages.
\<close>

definition count_tokens ::
  "((string \<times> pyval) list list \<Rightarrow> exn + int) option \<Rightarrow> (LLMMessage list \<Rightarrow> string)
     \<Rightarrow> LLMMessage list \<Rightarrow> exn + int" where
  "count_tokens counter str_of msgs =
     (case (case counter of
              None \<Rightarrow> Inl (ImportError ''count_messages_tokens_approx'')
            | Some count_messages_tokens_approx \<Rightarrow>
                count_messages_tokens_approx (prepare_messages msgs)) of
        Inr n \<Rightarrow> Inr n
      | Inl e \<Rightarrow> Inr (int (length (str_of msgs)) div 4))"


























section \<open>Built-in tools (\<^verbatim>\<open>core/tools/builtins\<close>)\<close>







text \<open>
  The file system, as far as the tools read it. \<open>home_of\<close> gives the home directory
  of a user (of the current user for the empty name), \<open>resolve\<close> is
  \<^verbatim>\<open>Path.resolve\<close> on a path under the working directory, \<open>kind\<close> says what is at
  a path; listing, reading and writing either succeed or raise.
\<close>

datatype path_kind = Missing | Directory | RegularFile | Special






subsection \<open>\<^verbatim>\<open>list_directory.py\<close>\<close>






subsection \<open>\<^verbatim>\<open>read_lines.py\<close>\<close>







subsection \<open>\<^verbatim>\<open>replace_lines.py\<close>\<close>












section \<open>Request pacing (\<^verbatim>\<open>core/llm/backend/universal.py\<close>)\<close>














section \<open>Example values\<close>

text \<open>
  Concrete configurations, responses, a small file system and backends, on which the
  properties below are evaluated.
\<close>

definition demo_model :: "string \<Rightarrow> ModelConfig" where
  "demo_model a =
     \<lparr>mc_name = a, mc_provider = ''local'', mc_alias = a, mc_temperature = 2 / 10,
      mc_input_price = 0, mc_output_price = 0, rate_limit_rpm = 0, max_context_tokens = 0\<rparr>"

definition demo_raw_model :: "string \<Rightarrow> string option \<Rightarrow> raw_model" where
  "demo_raw_model n a =
     \<lparr>raw_name = Some n, raw_provider = Some ''local'', raw_alias = a,
      raw_temperature = None, raw_input_price = None, raw_output_price = None,
      raw_rate_limit_rpm = None, raw_max_context_tokens = None\<rparr>"

definition demo_config :: "string \<Rightarrow> ModelConfig list \<Rightarrow> HacxgentConfig" where
  "demo_config a ms =
     \<lparr>active_model = a, system_prompt_id = ''cli'',
      providers = [\<lparr>pc_name = ''local'', pc_api_base = ''http://localhost'', pc_api_key_env_var = []\<rparr>],
      models = ms\<rparr>"

definition demo_raw_config :: "string \<Rightarrow> raw_model list \<Rightarrow> raw_config" where
  "demo_raw_config a ds =
     \<lparr>raw_active_model = a, raw_system_prompt_id = ''cli'',
      raw_providers = [\<lparr>pc_name = ''local'', pc_api_base = ''http://localhost'', pc_api_key_env_var = []\<rparr>],
      raw_models = ds\<rparr>"





definition demo_message :: "Role \<Rightarrow> string \<Rightarrow> LLMMessage" where
  "demo_message r text = mk_message r (PStr text) PNone None"











section \<open>Properties of the configuration\<close>

lemma find_None_alias:
  "find (\<lambda>m. mc_alias m = a) ms = None \<longleftrightarrow> a \<notin> mc_alias ` set ms"
  by (auto simp: find_None_iff)

lemma find_Some_alias:
  "find (\<lambda>m. mc_alias m = a) ms = Some m \<Longrightarrow> m \<in> set ms \<and> mc_alias m = a"
  by (auto simp: find_Some_iff)

text \<open>
  Claim C7. \<^verbatim>\<open>get_active_model\<close> raises exactly when the list of models is empty, or
  \<^verbatim>\<open>active_model\<close> is not empty and is the alias of no configured model. Otherwise it
  returns the first configured model when \<^verbatim>\<open>active_model\<close> is empty, and else the
  (first) configured model whose alias is \<^verbatim>\<open>active_model\<close>. Loading a configuration
  runs it, so a load that succeeds has an active model, and one on which it raises is
  aborted.
\<close>

theorem get_active_model_raises_iff:
  "((\<exists>e. get_active_model c = Inl e) \<longleftrightarrow>
      (models c = [] \<or> (active_model c \<noteq> [] \<and> active_model c \<notin> mc_alias ` set (models c))))
   \<and> (active_model c = [] \<and> models c \<noteq> [] \<longrightarrow> get_active_model c = Inr (hd (models c)))
   \<and> (active_model c \<noteq> [] \<and> active_model c \<in> mc_alias ` set (models c) \<longrightarrow>
        (\<exists>m. get_active_model c = Inr m \<and> m \<in> set (models c) \<and> mc_alias m = active_model c
             \<and> find (\<lambda>m. mc_alias m = active_model c) (models c) = Some m))
   \<and> (HacxgentConfig_load env has_prompt raw = Inr c' \<longrightarrow>
        (\<exists>m. get_active_model c' = Inr m))"
proof (intro conjI)
  show "(\<exists>e. get_active_model c = Inl e) \<longleftrightarrow>
      (models c = [] \<or> (active_model c \<noteq> [] \<and> active_model c \<notin> mc_alias ` set (models c)))"
  proof (cases "find (\<lambda>m. mc_alias m = active_model c) (models c)")
    case None
    then have "active_model c \<notin> mc_alias ` set (models c)"
      by (simp add: find_None_alias)
    with None show ?thesis
      by (auto simp: get_active_model_def)
  next
    case (Some m)
    from find_Some_alias [OF Some] have "active_model c \<in> mc_alias ` set (models c)"
      by (metis image_eqI)
    moreover from find_Some_alias [OF Some] have "models c \<noteq> []"
      by auto
    ultimately show ?thesis using Some
      by (auto simp: get_active_model_def)
  qed
next
  show "active_model c = [] \<and> models c \<noteq> [] \<longrightarrow> get_active_model c = Inr (hd (models c))"
    by (simp add: get_active_model_def)
next
  show "active_model c \<noteq> [] \<and> active_model c \<in> mc_alias ` set (models c) \<longrightarrow>
        (\<exists>m. get_active_model c = Inr m \<and> m \<in> set (models c) \<and> mc_alias m = active_model c
             \<and> find (\<lambda>m. mc_alias m = active_model c) (models c) = Some m)"
  proof
    assume a: "active_model c \<noteq> [] \<and> active_model c \<in> mc_alias ` set (models c)"
    then obtain m where m: "find (\<lambda>m. mc_alias m = active_model c) (models c) = Some m"
      using find_None_alias [of "active_model c" "models c"] by (cases "find (\<lambda>m. mc_alias m = active_model c) (models c)") auto
    with a find_Some_alias [OF m] show "\<exists>m. get_active_model c = Inr m \<and> m \<in> set (models c)
        \<and> mc_alias m = active_model c
        \<and> find (\<lambda>m. mc_alias m = active_model c) (models c) = Some m"
      by (simp add: get_active_model_def)
  qed
next
  show "HacxgentConfig_load env has_prompt raw = Inr c' \<longrightarrow>
        (\<exists>m. get_active_model c' = Inr m)"
    by (auto simp: HacxgentConfig_load_def check_api_key_def validate_model_uniqueness_def
          check_system_prompt_def split: sum.splits if_splits option.splits)
qed

lemma demo_load:
  "HacxgentConfig_load Map.empty (\<lambda>p. True)
      (demo_raw_config ''b'' [demo_raw_model ''a'' None, demo_raw_model ''m'' (Some ''b'')])
    = Inr (demo_config ''b'' [demo_model ''a'', (demo_model ''m'')\<lparr>mc_alias := ''b''\<rparr>])"
  by (simp add: HacxgentConfig_load_def demo_raw_config_def demo_raw_model_def demo_config_def
      demo_model_def ModelConfig_validate_def default_alias_to_name_def or_default_def
      check_api_key_def get_active_model_def get_provider_for_model_def
      validate_model_uniqueness_def check_system_prompt_def)

theorem get_active_model_raises_iff_witness:
  "get_active_model (demo_config [] [demo_model ''a'', demo_model ''b'']) = Inr (demo_model ''a'')
   \<and> get_active_model (demo_config ''b'' [demo_model ''a'', demo_model ''b'']) = Inr (demo_model ''b'')
   \<and> (\<exists>e. get_active_model (demo_config ''c'' [demo_model ''a'', demo_model ''b'']) = Inl e)
   \<and> (\<exists>e. get_active_model (demo_config [] []) = Inl e)
   \<and> (\<exists>m. get_active_model (demo_config ''b'' [demo_model ''a'', (demo_model ''m'')\<lparr>mc_alias := ''b''\<rparr>]) = Inr m)"
proof -
  let ?ms = "[demo_model ''a'', demo_model ''b'']"
  have 1: "active_model (demo_config [] ?ms) = [] \<and> models (demo_config [] ?ms) \<noteq> []"
    by (simp add: demo_config_def)
  have 2: "active_model (demo_config ''b'' ?ms) \<noteq> []
           \<and> active_model (demo_config ''b'' ?ms) \<in> mc_alias ` set (models (demo_config ''b'' ?ms))"
    by (simp add: demo_config_def demo_model_def)
  have 3: "active_model (demo_config ''c'' ?ms) \<noteq> []
           \<and> active_model (demo_config ''c'' ?ms) \<notin> mc_alias ` set (models (demo_config ''c'' ?ms))"
    by (simp add: demo_config_def demo_model_def)
  have 4: "models (demo_config [] []) = []"
    by (simp add: demo_config_def)
  note t = get_active_model_raises_iff
  from t [of "demo_config [] ?ms"] 1
  have a: "get_active_model (demo_config [] ?ms) = Inr (demo_model ''a'')"
    by (simp add: demo_config_def)
  from t [of "demo_config ''b'' ?ms"] 2
  have b: "get_active_model (demo_config ''b'' ?ms) = Inr (demo_model ''b'')"
    by (auto simp: demo_config_def demo_model_def)
  from t [of "demo_config ''c'' ?ms"] 3
  have c: "\<exists>e. get_active_model (demo_config ''c'' ?ms) = Inl e"
    by blast
  from t [of "demo_config [] []"] 4
  have d: "\<exists>e. get_active_model (demo_config [] []) = Inl e"
    by blast
  from t [where env = Map.empty and has_prompt = "\<lambda>p. True"
        and raw = "demo_raw_config ''b'' [demo_raw_model ''a'' None, demo_raw_model ''m'' (Some ''b'')]"
        and c' = "demo_config ''b'' [demo_model ''a'', (demo_model ''m'')\<lparr>mc_alias := ''b''\<rparr>]"]
    demo_load
  have e: "\<exists>m. get_active_model (demo_config ''b'' [demo_model ''a'', (demo_model ''m'')\<lparr>mc_alias := ''b''\<rparr>]) = Inr m"
    by blast
  from a b c d e show ?thesis by blast
qed








section \<open>Properties of resuming a session\<close>

text \<open>
  Claim C10. Pre-seeding the agent loop from a resumed session appends to the
  conversation exactly the loaded messages whose role is not system, in their order;
  the messages already there stay as they are, and the loaded system messages are
  dropped.
\<close>

theorem load_messages_extends:
  "messages (load_messages_from_previous_session agent_loop loaded_messages) =
     messages agent_loop @ filter (\<lambda>msg. msg_role msg \<noteq> system) loaded_messages"
  by (simp add: load_messages_from_previous_session_def)


section \<open>Properties of the server name\<close>

lemma re_sub_name_chars: "set (re_sub_name v) \<subseteq> set name_chars"
  by (auto simp: re_sub_name_def name_chars_def)

lemma py_strip_subset: "set (py_strip cs s) \<subseteq> set s"
proof
  fix x assume "x \<in> set (py_strip cs s)"
  then have "x \<in> set (dropWhile (\<lambda>c. c \<in> set cs) (rev (dropWhile (\<lambda>c. c \<in> set cs) s)))"
    by (simp add: py_strip_def)
  then have "x \<in> set (rev (dropWhile (\<lambda>c. c \<in> set cs) s))"
    by (rule set_dropWhileD)
  then have "x \<in> set (dropWhile (\<lambda>c. c \<in> set cs) s)" by simp
  then show "x \<in> set s" by (rule set_dropWhileD)
qed

lemma py_strip_hd: "py_strip cs s \<noteq> [] \<Longrightarrow> hd (py_strip cs s) \<notin> set cs"
proof -
  assume ne: "py_strip cs s \<noteq> []"
  define t where "t = dropWhile (\<lambda>c. c \<in> set cs) s"
  define u where "u = dropWhile (\<lambda>c. c \<in> set cs) (rev t)"
  have ps: "py_strip cs s = rev u"
    by (simp add: py_strip_def u_def t_def)
  with ne have u: "u \<noteq> []" by simp
  have t: "t \<noteq> []"
  proof
    assume "t = []"
    then have "u = []" by (simp add: u_def)
    with u show False by simp
  qed
  then have ht: "hd t \<notin> set cs"
    unfolding t_def using hd_dropWhile by blast
  have "rev t = takeWhile (\<lambda>c. c \<in> set cs) (rev t) @ u"
    unfolding u_def by simp
  then have "t = rev u @ rev (takeWhile (\<lambda>c. c \<in> set cs) (rev t))"
    by (metis rev_append rev_rev_ident)
  with u have "hd (rev u) = hd t"
    by (metis hd_append2 rev_is_Nil_conv)
  with ht ps show ?thesis by simp
qed

lemma py_strip_last: "py_strip cs s \<noteq> [] \<Longrightarrow> last (py_strip cs s) \<notin> set cs"
proof -
  assume ne: "py_strip cs s \<noteq> []"
  define u where "u = dropWhile (\<lambda>c. c \<in> set cs) (rev (dropWhile (\<lambda>c. c \<in> set cs) s))"
  have ps: "py_strip cs s = rev u"
    by (simp add: py_strip_def u_def)
  with ne have u: "u \<noteq> []" by simp
  then have "hd u \<notin> set cs" unfolding u_def using hd_dropWhile by blast
  with u ps show ?thesis by (simp add: last_rev)
qed

lemma py_strip_all: "set s \<subseteq> set cs \<Longrightarrow> py_strip cs s = []"
proof -
  assume "set s \<subseteq> set cs"
  then have "dropWhile (\<lambda>c. c \<in> set cs) s = []"
    by (simp add: subset_iff)
  then show ?thesis unfolding py_strip_def by (simp only: rev.simps dropWhile.simps)
qed

lemma normalize_name_charset: "set (normalize_name v) \<subseteq> set name_chars"
proof -
  have "set (normalize_name v) \<subseteq> set (py_strip ''_-'' (re_sub_name v))"
    by (simp add: normalize_name_def set_take_subset)
  also have "\<dots> \<subseteq> set (re_sub_name v)" by (rule py_strip_subset)
  also have "\<dots> \<subseteq> set name_chars" by (rule re_sub_name_chars)
  finally show ?thesis .
qed

lemma normalize_name_hd:
  "normalize_name v \<noteq> [] \<Longrightarrow> hd (normalize_name v) \<notin> set ''_-''"
proof -
  assume ne: "normalize_name v \<noteq> []"
  then have s: "py_strip ''_-'' (re_sub_name v) \<noteq> []"
    by (auto simp: normalize_name_def)
  have "hd (normalize_name v) = hd (py_strip ''_-'' (re_sub_name v))"
    by (simp add: normalize_name_def)
  with py_strip_hd [OF s] show ?thesis by simp
qed

lemma normalize_name_last:
  "length (py_strip ''_-'' (re_sub_name v)) \<le> 256 \<Longrightarrow> normalize_name v \<noteq> [] \<Longrightarrow>
     last (normalize_name v) \<notin> set ''_-''"
proof -
  assume le: "length (py_strip ''_-'' (re_sub_name v)) \<le> 256" and ne: "normalize_name v \<noteq> []"
  from le have eq: "normalize_name v = py_strip ''_-'' (re_sub_name v)"
    by (simp add: normalize_name_def)
  with ne py_strip_last [of "''_-''" "re_sub_name v"] show ?thesis by simp
qed

lemma normalize_name_excluded:
  "set v \<inter> set name_chars = {} \<Longrightarrow> normalize_name v = []"
proof -
  assume d: "set v \<inter> set name_chars = {}"
  then have "re_sub_name v = replicate (length v) (CHR ''_'')"
    unfolding re_sub_name_def by (induction v) auto
  then have "set (re_sub_name v) \<subseteq> set ''_-''" by auto
  from py_strip_all [OF this] show ?thesis by (simp add: normalize_name_def)
qed

text \<open>
  What holds of every normalized name: its characters are letters, digits, underscores
  and hyphens, it has at most 256 characters, it does not begin with an underscore or a
  hyphen, and a name of excluded characters only becomes the empty name. It does not end
  with an underscore or a hyphen as long as the stripped name has at most 256
  characters, so that nothing is cut off.
\<close>

lemma normalize_name_invariants:
  "set (normalize_name v) \<subseteq> set name_chars
   \<and> length (normalize_name v) \<le> 256
   \<and> (normalize_name v \<noteq> [] \<longrightarrow> hd (normalize_name v) \<notin> set ''_-'')
   \<and> (length (py_strip ''_-'' (re_sub_name v)) \<le> 256 \<and> normalize_name v \<noteq> [] \<longrightarrow>
        last (normalize_name v) \<notin> set ''_-'')
   \<and> (set v \<inter> set name_chars = {} \<longrightarrow> normalize_name v = [])"
  using normalize_name_charset [of v] normalize_name_hd [of v] normalize_name_last [of v]
    normalize_name_excluded [of v]
  by (simp add: normalize_name_def)

text \<open>
  Claim C8. A normalized server name neither begins nor ends with an underscore or a
  hyphen. The name is stripped before it is cut to 256 characters, so the cut can end
  on an underscore: the name of 255 letters \<^verbatim>\<open>a\<close> followed by \<^verbatim>\<open>_b\<close> is
  normalized to the 255 letters followed by the underscore.
\<close>

theorem normalize_name_trailing_underscore:
  "normalize_name (replicate 255 (CHR ''a'') @ ''_b'') = replicate 255 (CHR ''a'') @ ''_''
   \<and> last (normalize_name (replicate 255 (CHR ''a'') @ ''_b'')) = CHR ''_''
   \<and> length (normalize_name (replicate 255 (CHR ''a'') @ ''_b'')) = 256"
proof -
  let ?as = "replicate 255 (CHR ''a'')"
  have r: "re_sub_name (?as @ ''_b'') = ?as @ ''_b''"
    by (simp add: re_sub_name_def name_chars_def)
  have "(255::nat) = Suc 254" by simp
  then have as: "?as = CHR ''a'' # replicate 254 (CHR ''a'')"
    by (metis replicate_Suc)
  have d1: "dropWhile (\<lambda>c. c \<in> set ''_-'') (?as @ ''_b'') = ?as @ ''_b''"
    unfolding as by simp
  have s: "py_strip ''_-'' (?as @ ''_b'') = ?as @ ''_b''"
    unfolding py_strip_def d1 by simp
  have "normalize_name (?as @ ''_b'') = ?as @ ''_''"
    unfolding normalize_name_def Let_def r s by simp
  then show ?thesis by simp
qed


section \<open>Properties of the HTTP headers\<close>


















section \<open>Properties of the backend adapter\<close>





text \<open>
  Claim C6. \<^verbatim>\<open>count_tokens\<close> always returns a number. When the approximate counter
  cannot be imported, or raises, the number is the length of \<^verbatim>\<open>str(messages)\<close>
  divided by four, rounded down; when the counter returns, it is the counter's result.
\<close>

theorem count_tokens_never_raises:
  "(\<exists>n. count_tokens counter str_of msgs = Inr n)
   \<and> (counter = None \<longrightarrow> count_tokens counter str_of msgs = Inr (int (length (str_of msgs)) div 4))
   \<and> (\<forall>f e. counter = Some f \<and> f (prepare_messages msgs) = Inl e \<longrightarrow>
         count_tokens counter str_of msgs = Inr (int (length (str_of msgs)) div 4))
   \<and> (\<forall>f n. counter = Some f \<and> f (prepare_messages msgs) = Inr n \<longrightarrow>
         count_tokens counter str_of msgs = Inr n)"
  by (auto simp: count_tokens_def split: option.splits sum.splits)
theorem count_tokens_never_raises_witness:
  "count_tokens None (\<lambda>ms. replicate (9 * length ms) (CHR ''m'')) [demo_message user ''hello'', demo_message assistant ''hi'']
     = Inr 4
   \<and> count_tokens (Some (\<lambda>p. Inl (ValueError ''no tokenizer''))) (\<lambda>ms. replicate (9 * length ms) (CHR ''m''))
        [demo_message user ''hello'', demo_message assistant ''hi''] = Inr 4
   \<and> count_tokens (Some (\<lambda>p. Inr (3 * int (length p)))) (\<lambda>ms. replicate (9 * length ms) (CHR ''m''))
        [demo_message user ''hello'', demo_message assistant ''hi''] = Inr 6"
proof -
  let ?s = "\<lambda>ms :: LLMMessage list. replicate (9 * length ms) (CHR ''m'')"
  let ?ms = "[demo_message user ''hello'', demo_message assistant ''hi'']"
  note t = count_tokens_never_raises
  have a: "count_tokens None ?s ?ms = Inr 4"
    using t [where counter = None and str_of = ?s and msgs = ?ms] by simp
  have b: "count_tokens (Some (\<lambda>p. Inl (ValueError ''no tokenizer''))) ?s ?ms = Inr 4"
    using t [where counter = "Some (\<lambda>p. Inl (ValueError ''no tokenizer''))" and str_of = ?s and msgs = ?ms]
    by simp
  have c: "count_tokens (Some (\<lambda>p. Inr (3 * int (length p)))) ?s ?ms = Inr 6"
    using t [where counter = "Some (\<lambda>p. Inr (3 * int (length p)))" and str_of = ?s and msgs = ?ms]
    by (simp add: prepare_messages_def)
  from a b c show ?thesis by (simp only: simp_thms)
qed


section \<open>Properties of the streaming bridge\<close>


























section \<open>Properties of the built-in tools\<close>
















section \<open>Properties of request pacing\<close>










end
